theory Spec2Isabelle
  imports Complex_Main
begin

section \<open>Data model of \<open>dolo/algos/steady_state.py\<close>\<close>

text \<open>
  A Python float is a finite number, idealised as a real (rounding and overflow are left
  out), or one of nan, inf and -inf, which are kept as the one value \<open>NotFinite\<close>. The
  body of \<open>find_steady_state\<close> subtracts floats and does nothing else with them, and a
  difference with an operand that is not finite is not finite, so that nothing the
  function does tells the three apart.
\<close>

datatype float = Finite real | NotFinite

text \<open>
  Numeric vectors are numpy arrays of one dimension. A matrix is the list of its rows.
\<close>

type_synonym vec = "float list"
type_synonym matrix = "float list list"

text \<open>
  The exceptions that the body of \<open>find_steady_state\<close> can raise or let through:
  Python's \<open>TypeError\<close>, \<open>ValueError\<close> and \<open>IndexError\<close>, numpy's \<open>LinAlgError\<close>, and
  any other failure raised inside the model's own functions or inside an external
  routine (\<open>External\<close>, with a tag).
\<close>

datatype error = TypeError | ValueError | IndexError | LinAlgError | External nat

text \<open>
  The argument \<open>force_values\<close>: a list or tuple of floats, or a dict from state names
  to floats, kept as the list of its items in the order in which \<open>keys()\<close> and
  \<open>values()\<close> enumerate them.
\<close>

datatype force_values = Positional "float list" | Named "(string \<times> float) list"

text \<open>
  The model object: \<open>model.calibration['states']\<close>, \<open>model.symbols['shocks']\<close>,
  \<open>model.functions['transition']\<close> and so on become fields. The two functions of
  the model may raise; what they raise is propagated.
\<close>

record model =
  calibration_states :: vec
  calibration_controls :: vec
  calibration_parameters :: vec
  symbols_states :: "string list"
  symbols_controls :: "string list"
  symbols_shocks :: "string list"
  transition :: "vec \<Rightarrow> vec \<Rightarrow> vec \<Rightarrow> vec \<Rightarrow> error + vec"
  arbitrage :: "vec \<Rightarrow> vec \<Rightarrow> vec \<Rightarrow> vec \<Rightarrow> vec \<Rightarrow> error + vec"

text \<open>
  What \<open>scipy.optimize.root\<close> returns: of the fields of its result object the source
  reads only \<open>x\<close>, the final vector; \<open>success\<close> is scipy's own flag, true when the
  iteration stopped on one of its tolerance tests and false when it stopped on its
  budget of evaluations.
\<close>

record OptimizeResult =
  sol_x :: vec
  sol_success :: bool

text \<open>
  How a numpy integer array converts to a list index (\<open>__index__\<close>), which decides
  \<open>force_values[inds]\<close> on line 29 when \<open>force_values\<close> is a list: numpy before 1.12
  converts an array holding exactly one element and refuses every other one; later
  versions refuse every array of one dimension. The demonstration at the end of the
  source file (\<open>force_values=[0.3,nan]\<close>, "returns steady-state") runs under the
  first rule.
\<close>

datatype index_rule = OneElementArrays | ScalarArraysOnly

text \<open>
  The routines that the function imports from outside the file: the finite-difference
  estimator \<open>dolo.numeric.solver.MyJacobian\<close>, \<open>numpy.linalg.matrix_rank\<close>,
  \<open>scipy.optimize.root\<close> (always called with \<open>method='lm'\<close>) and numpy's index
  conversion. They are parameters of the model. Each of the three routines returns or
  raises: \<open>matrix_rank\<close> raises \<open>LinAlgError\<close> when the singular value decomposition
  that it computes does not converge, as on a matrix with an entry that is not finite.
\<close>

record env =
  MyJacobian :: "(vec \<Rightarrow> error + vec) \<Rightarrow> vec \<Rightarrow> error + matrix"
  matrix_rank :: "matrix \<Rightarrow> error + nat"
  root :: "(vec \<Rightarrow> error + vec) \<Rightarrow> vec \<Rightarrow> error + OptimizeResult"
  numpy_index :: index_rule

text \<open>
  What a call returns: the Jacobian (line 48) or the list of the two vectors (line 60).
\<close>

datatype result = Jacobian matrix | SteadyState vec vec

text \<open>
  The effects of a call, in the order in which they happen: the call of the Jacobian
  estimator on line 46, the warning of line 54 with the two numbers that its message
  states (\<open>len(z)\<close> and the rank), the call of the root solver on line 57.
\<close>

datatype event = JacobianEstimated | Warning nat nat | RootInvoked

section \<open>numpy and Python operations\<close>

text \<open>
  Zero, sums, differences and products of floats: finite on finite operands, not finite
  as soon as one operand is not (\<open>inf - inf\<close> and \<open>0 * inf\<close> are nan).
\<close>

instantiation float :: "{zero, plus, minus, times}"
begin

definition zero_float :: float where
  "zero_float = Finite 0"

definition plus_float :: "float \<Rightarrow> float \<Rightarrow> float" where
  "plus_float a b =
     (case a of
        Finite u \<Rightarrow> (case b of Finite v \<Rightarrow> Finite (u + v) | NotFinite \<Rightarrow> NotFinite)
      | NotFinite \<Rightarrow> NotFinite)"

definition minus_float :: "float \<Rightarrow> float \<Rightarrow> float" where
  "minus_float a b =
     (case a of
        Finite u \<Rightarrow> (case b of Finite v \<Rightarrow> Finite (u - v) | NotFinite \<Rightarrow> NotFinite)
      | NotFinite \<Rightarrow> NotFinite)"

definition times_float :: "float \<Rightarrow> float \<Rightarrow> float" where
  "times_float a b =
     (case a of
        Finite u \<Rightarrow> (case b of Finite v \<Rightarrow> Finite (u * v) | NotFinite \<Rightarrow> NotFinite)
      | NotFinite \<Rightarrow> NotFinite)"

instance ..

end

text \<open>\<open>numpy.isfinite\<close> on one float.\<close>

fun isfinite :: "float \<Rightarrow> bool" where
  "isfinite (Finite v) = True"
| "isfinite NotFinite = False"

text \<open>An array of finite numbers.\<close>

definition floats :: "real list \<Rightarrow> vec" where
  "floats xs = map Finite xs"

definition zeros :: "nat \<Rightarrow> vec" where
  "zeros n = replicate n 0"

text \<open>\<open>e.ravel()\<close> flattens an array; on an array of one dimension it changes nothing.\<close>

definition ravel :: "vec \<Rightarrow> vec" where
  "ravel e = e"

text \<open>
  \<open>a - b\<close> on arrays of one dimension: entry by entry when the lengths agree, an array
  of length one is broadcast against the other, and any other pair of lengths raises
  \<open>ValueError\<close>.
\<close>

definition np_sub :: "vec \<Rightarrow> vec \<Rightarrow> error + vec" where
  "np_sub a b =
     (if length a = length b then Inr (map2 (-) a b)
      else if length b = 1 then Inr (map (\<lambda>u. u - hd b) a)
      else if length a = 1 then Inr (map (\<lambda>v. hd a - v) b)
      else Inl ValueError)"

text \<open>\<open>S[inds]\<close> with a list or array of indices: \<open>IndexError\<close> when one is out of bounds.\<close>

definition np_take :: "vec \<Rightarrow> nat list \<Rightarrow> error + vec" where
  "np_take S inds =
     (if list_all (\<lambda>i. i < length S) inds then Inr (map (\<lambda>i. S ! i) inds)
      else Inl IndexError)"

text \<open>\<open>numpy.where(numpy.isfinite(force_values))[0]\<close>: the positions of the finite entries.\<close>

definition where_finite :: "float list \<Rightarrow> nat list" where
  "where_finite fv = filter (\<lambda>i. isfinite (fv ! i)) [0..<length fv]"

text \<open>The conversion of an index array to one list index, by the rule of the numpy at hand.\<close>

fun array_index :: "index_rule \<Rightarrow> nat list \<Rightarrow> nat option" where
  "array_index OneElementArrays [i] = Some i"
| "array_index OneElementArrays inds = None"
| "array_index ScalarArraysOnly inds = None"

text \<open>
  \<open>force_values[inds]\<close> for a Python list and an index array: \<open>TypeError\<close> when the array
  does not convert to an index, otherwise the entry at that index, \<open>IndexError\<close> when
  there is none (which line 29 cannot reach: its indices come from \<open>where_finite\<close>).
\<close>

definition list_getitem :: "index_rule \<Rightarrow> float list \<Rightarrow> nat list \<Rightarrow> error + float" where
  "list_getitem rule fv inds =
     (case array_index rule inds of
        None \<Rightarrow> Inl TypeError
      | Some i \<Rightarrow> if i < length fv then Inr (fv ! i) else Inl IndexError)"

text \<open>\<open>xs.index(k)\<close>: the first position of \<open>k\<close>, \<open>ValueError\<close> when there is none.\<close>

fun index_of :: "string list \<Rightarrow> string \<Rightarrow> error + nat" where
  "index_of [] k = Inl ValueError"
| "index_of (y # ys) k = (if y = k then Inr 0 else map_sum id Suc (index_of ys k))"

text \<open>The comprehension \<open>[xs.index(k) for k in keys]\<close>: it stops at the first key that raises.\<close>

fun indices_of :: "string list \<Rightarrow> string list \<Rightarrow> error + nat list" where
  "indices_of xs [] = Inr []"
| "indices_of xs (k # ks) =
     (case index_of xs k of
        Inl err \<Rightarrow> Inl err
      | Inr i \<Rightarrow> (case indices_of xs ks of Inl err \<Rightarrow> Inl err | Inr js \<Rightarrow> Inr (i # js)))"

section \<open>\<open>find_steady_state\<close>\<close>

text \<open>
  Lines 26 to 32: the indices \<open>inds\<close> and the values \<open>vals\<close> of the constraints, or
  nothing when \<open>force_values\<close> is \<open>None\<close>. For a list, \<open>vals\<close> is the one float
  \<open>force_values[inds]\<close>, which line 41 broadcasts against \<open>S[inds]\<close>: it is kept as the
  array of length one. For a dict, \<open>vals\<close> is the list \<open>force_values.values()\<close>.
\<close>

definition constraints ::
  "index_rule \<Rightarrow> model \<Rightarrow> force_values option \<Rightarrow> error + (nat list \<times> vec) option" where
  "constraints rule model force_values =
     (case force_values of
        None \<Rightarrow> Inr None
      | Some (Positional fv) \<Rightarrow>
          (let inds = where_finite fv in
           case list_getitem rule fv inds of
             Inl err \<Rightarrow> Inl err
           | Inr v \<Rightarrow> Inr (Some (inds, [v])))
      | Some (Named d) \<Rightarrow>
          (case indices_of (symbols_states model) (map fst d) of
             Inl err \<Rightarrow> Inl err
           | Inr inds \<Rightarrow> Inr (Some (inds, map snd d))))"

text \<open>
  Lines 34 to 43: the closure \<open>fobj\<close>, with what it captures (\<open>model\<close>, \<open>s0\<close>, \<open>e\<close>, \<open>p\<close>
  and the constraints) as arguments.
\<close>

definition fobj ::
  "model \<Rightarrow> vec \<Rightarrow> vec \<Rightarrow> vec \<Rightarrow> (nat list \<times> vec) option \<Rightarrow> vec \<Rightarrow> error + vec" where
  "fobj model s0 e p forced z =
     (let s = take (length s0) z; x = drop (length s0) z in
      case transition model s x e p of
        Inl err \<Rightarrow> Inl err
      | Inr S \<Rightarrow>
      (case arbitrage model s x s x p of
        Inl err \<Rightarrow> Inl err
      | Inr r \<Rightarrow>
      (case np_sub S s of
        Inl err \<Rightarrow> Inl err
      | Inr d \<Rightarrow>
      (let res = d @ r in
       case forced of
         None \<Rightarrow> Inr res
       | Some (inds, vals) \<Rightarrow>
          (case np_take S inds of
             Inl err \<Rightarrow> Inl err
           | Inr Si \<Rightarrow>
          (case np_sub Si vals of
             Inl err \<Rightarrow> Inl err
           | Inr add \<Rightarrow> Inr (res @ add)))))))"

text \<open>Lines 21 to 24: the shocks, zero when \<open>e\<close> is \<open>None\<close>.\<close>

definition shock_vector :: "model \<Rightarrow> vec option \<Rightarrow> vec" where
  "shock_vector model e =
     (case e of None \<Rightarrow> zeros (length (symbols_shocks model)) | Some v \<Rightarrow> ravel v)"

text \<open>
  The whole function. It returns what the call returns or raises, and the effects of
  the call in order. An exception raised on line 51 by the rank routine ends the call
  there, as any other does: the function has no handler.
\<close>

definition find_steady_state ::
  "env \<Rightarrow> model \<Rightarrow> vec option \<Rightarrow> force_values option \<Rightarrow> bool \<Rightarrow> (error + result) \<times> event list" where
  "find_steady_state env model e force_values return_jacobian =
     (let s0 = calibration_states model;
          x0 = calibration_controls model;
          p = calibration_parameters model;
          z = s0 @ x0;
          e' = shock_vector model e
      in
      case constraints (numpy_index env) model force_values of
        Inl err \<Rightarrow> (Inl err, [])
      | Inr forced \<Rightarrow>
      (case MyJacobian env (fobj model s0 e' p forced) z of
        Inl err \<Rightarrow> (Inl err, [JacobianEstimated])
      | Inr jac \<Rightarrow>
          if return_jacobian then (Inr (Jacobian jac), [JacobianEstimated])
          else
            (case matrix_rank env jac of
               Inl err \<Rightarrow> (Inl err, [JacobianEstimated])
             | Inr rank \<Rightarrow>
            (let warned = (if rank < length z then [Warning (length z) rank] else [])
             in
             case root env (fobj model s0 e' p forced) z of
               Inl err \<Rightarrow> (Inl err, JacobianEstimated # warned @ [RootInvoked])
             | Inr sol \<Rightarrow>
                 (let steady_state = sol_x sol in
                  (Inr (SteadyState (take (length s0) steady_state)
                                    (drop (length s0) steady_state)),
                   JacobianEstimated # warned @ [RootInvoked]))))))"

text \<open>
  What one call leaves behind for the next: \<open>warnings.warn\<close> on line 54 goes through
  the warning registry of the module. Under Python's default filters a warning is
  shown when its key (message text, category, line) is not yet in the registry, and
  the key is then put in; when the key is there the warning is dropped. Category and
  line are the same for every warning of this function, and the message text is fixed
  by the two numbers that it states, so that a key is that pair of numbers.
\<close>

type_synonym registry = "(nat \<times> nat) list"

definition warnings_warn :: "nat \<Rightarrow> nat \<Rightarrow> registry \<Rightarrow> (nat \<times> nat) list \<times> registry" where
  "warnings_warn n rank registry =
     (if (n, rank) \<in> set registry then ([], registry)
      else ([(n, rank)], registry @ [(n, rank)]))"



section \<open>Example models and stand-ins for the external routines\<close>

text \<open>
  The examples below run \<open>find_steady_state\<close> on concrete inputs. They need concrete
  external routines. The estimator is a forward difference with a finite step \<open>h\<close>. The
  rank routine raises \<open>LinAlgError\<close> on a matrix with an entry that is not finite and
  otherwise counts the non-zero rows (that is the rank of a matrix whose non-zero rows
  have their non-zero entries in distinct columns, as the Jacobians of the examples
  with a warning do). The solver run is one that finds no step that lowers the residual:
  it returns its initial point, and reports that stop as a success. This is the run of the
  Levenberg-Marquardt iteration where the residual at the initial point is orthogonal
  to every column of the Jacobian, at a root in particular; MINPACK stops there on its
  gradient test, which scipy counts as a success. The examples that state what a solve
  returns are at such points. Elsewhere the real solver moves away from its initial
  point; the theorems are stated for every solver.
\<close>

fun collect :: "(error + 'a) list \<Rightarrow> error + 'a list" where
  "collect [] = Inr []"
| "collect (r # rs) =
     (case r of
        Inl err \<Rightarrow> Inl err
      | Inr v \<Rightarrow> (case collect rs of Inl err \<Rightarrow> Inl err | Inr vs \<Rightarrow> Inr (v # vs)))"

definition over :: "float \<Rightarrow> real \<Rightarrow> float" where
  "over a h = (case a of Finite u \<Rightarrow> if h = 0 then NotFinite else Finite (u / h) | NotFinite \<Rightarrow> NotFinite)"

definition forward_difference :: "real \<Rightarrow> (vec \<Rightarrow> error + vec) \<Rightarrow> vec \<Rightarrow> error + matrix" where
  "forward_difference h f z =
     (case f z of
        Inl err \<Rightarrow> Inl err
      | Inr y0 \<Rightarrow>
          (case collect (map (\<lambda>i. f (z[i := z ! i + Finite h])) [0..<length z]) of
             Inl err \<Rightarrow> Inl err
           | Inr ys \<Rightarrow> Inr (map (\<lambda>j. map (\<lambda>y. over (y ! j - y0 ! j) h) ys) [0..<length y0])))"

definition nonzero_rows :: "matrix \<Rightarrow> nat" where
  "nonzero_rows J = length (filter (list_ex (\<lambda>v. v \<noteq> 0)) J)"

definition rank_or_raise :: "matrix \<Rightarrow> error + nat" where
  "rank_or_raise J =
     (if list_all (list_all isfinite) J then Inr (nonzero_rows J) else Inl LinAlgError)"

definition stalled_root :: "(vec \<Rightarrow> error + vec) \<Rightarrow> vec \<Rightarrow> error + OptimizeResult" where
  "stalled_root f z =
     (case f z of
        Inl err \<Rightarrow> Inl err
      | Inr y \<Rightarrow> Inr \<lparr>sol_x = z, sol_success = True\<rparr>)"

definition example_env :: "index_rule \<Rightarrow> env" where
  "example_env rule =
     \<lparr>MyJacobian = forward_difference 1, matrix_rank = rank_or_raise,
      root = stalled_root, numpy_index = rule\<rparr>"

text \<open>
  Two states and one control. Each state moves to \<open>a\<close> times itself plus \<open>b\<close>, where
  \<open>[a, b]\<close> are the parameters, and the arbitrage residual is the control itself;
  the calibrated point is \<open>s0\<close>, \<open>[0]\<close>. With \<open>a = 1\<close> and \<open>b = 0\<close> the states have a unit
  root.
\<close>

definition example_model :: "real \<Rightarrow> real \<Rightarrow> real list \<Rightarrow> model" where
  "example_model a b s0 =
     \<lparr>calibration_states = floats s0,
      calibration_controls = floats [0],
      calibration_parameters = floats [a, b],
      symbols_states = [''W_1'', ''W_2''],
      symbols_controls = [''c''],
      symbols_shocks = [''eps''],
      transition = (\<lambda>s x e p. Inr (map (\<lambda>v. p ! 0 * v + p ! 1) s)),
      arbitrage = (\<lambda>s x S X p. Inr x)\<rparr>"

text \<open>
  The same model with states that halve, calibrated at \<open>[0, 0]\<close>, \<open>[0]\<close>, and with an
  arbitrage residual that is the constant \<open>c\<close> whatever the states and the control
  are. With \<open>c = 0\<close> the equilibrium condition always holds and the calibrated point is
  a steady state; with another \<open>c\<close> it never holds and the model has no steady state.
\<close>

definition fixed_residual_model :: "real \<Rightarrow> model" where
  "fixed_residual_model c =
     (example_model (1 / 2) 0 [0, 0])\<lparr>arbitrage := (\<lambda>s x S X p. Inr (map (\<lambda>v. Finite c) x))\<rparr>"

text \<open>
  The unit-root model calibrated at \<open>[1, 2]\<close>, \<open>[0]\<close> with its first parameter left at
  nan: the transition then returns nan for every state.
\<close>

definition nan_parameter_model :: model where
  "nan_parameter_model =
     (example_model 1 0 [1, 2])\<lparr>calibration_parameters := [NotFinite, Finite 0]\<rparr>"

section \<open>Arithmetic of floats\<close>

lemma float_plus [simp]: "Finite a + Finite b = Finite (a + b)"
  by (simp add: plus_float_def)

lemma float_minus [simp]: "Finite a - Finite b = Finite (a - b)"
  by (simp add: minus_float_def)

lemma float_times [simp]: "Finite a * Finite b = Finite (a * b)"
  by (simp add: times_float_def)

lemma float_not_finite [simp]:
  "NotFinite + b = NotFinite" "a + NotFinite = NotFinite"
  "NotFinite - b = NotFinite" "a - NotFinite = NotFinite"
  "NotFinite * b = NotFinite" "a * NotFinite = NotFinite"
  by (simp_all add: plus_float_def minus_float_def times_float_def split: float.splits)

section \<open>Shocks\<close>

text \<open>
  C5. A call with \<open>e=None\<close> returns what the call with the explicit zero vector of the
  length of \<open>model.symbols['shocks']\<close> returns, with the same effects, whatever
  \<open>force_values\<close> and \<open>return_jacobian\<close> are.
\<close>

theorem shocks_default_is_zero_vector:
  "find_steady_state env model None force_values return_jacobian =
   find_steady_state env model (Some (zeros (length (symbols_shocks model))))
     force_values return_jacobian"
  by (simp add: find_steady_state_def shock_vector_def ravel_def)

section \<open>Convergence is not reported\<close>

text \<open>
  C1, as the code has it. A solve returns the two halves of the solver's final vector and
  nothing else: whatever the solver's \<open>success\<close> flag says, the result and the effects
  of the call are the same, so a run that stopped without converging returns exactly
  what a converged run with the same final vector returns.
\<close>

theorem result_ignores_success_flag:
  "find_steady_state
     (env\<lparr>root := \<lambda>f z. map_sum id (sol_success_update (\<lambda>_. flag)) (root env f z)\<rparr>)
     model e force_values return_jacobian =
   find_steady_state env model e force_values return_jacobian"
  by (auto simp: find_steady_state_def Let_def split: sum.splits)

text \<open>
  A model whose arbitrage residual is a constant other than zero has no steady state:
  wherever the solver stops, the residual there has that constant in it.
\<close>

lemma fixed_residual_model_has_no_root:
  assumes "fobj (fixed_residual_model c) s0 e p None z = Inr y"
    and "length s0 < length z"
    and "c \<noteq> 0"
  shows "\<not> list_all (\<lambda>v. v = 0) y"
proof -
  from assms(2) obtain x xs where x: "drop (length s0) z = x # xs"
    by (cases "drop (length s0) z") auto
  from assms(1) obtain d where "y = d @ map (\<lambda>v. Finite c) (x # xs)"
    by (auto simp: fobj_def fixed_residual_model_def example_model_def x Let_def
             split: sum.splits)
  then show ?thesis
    using assms(3) by (simp add: zero_float_def)
qed

text \<open>
  C1 as stated fails. With the constant arbitrage residual \<open>1\<close> the model has no steady
  state. At the calibrated point \<open>[0, 0], [0]\<close> the residual is \<open>[0, 0, 1]\<close>, orthogonal
  to every column of the Jacobian there, so that no step lowers it: the solver stops
  where it started, without a root. The call returns that point as the two vectors, and
  its effects are the Jacobian estimate, the rank warning and the solver call. With the
  constant residual \<open>0\<close> the same point is a steady state, and the call returns the same
  value with the same effects.
\<close>

theorem nonconvergence_not_reported_counterexample:
  "find_steady_state (example_env OneElementArrays) (fixed_residual_model 1) None None False =
     (Inr (SteadyState (floats [0, 0]) (floats [0])),
      [JacobianEstimated, Warning 3 2, RootInvoked]) \<and>
   fobj (fixed_residual_model 1) (floats [0, 0]) (floats [0]) (floats [1 / 2, 0]) None
     (floats [0, 0, 0]) = Inr (floats [0, 0, 1]) \<and>
   MyJacobian (example_env OneElementArrays)
     (fobj (fixed_residual_model 1) (floats [0, 0]) (floats [0]) (floats [1 / 2, 0]) None)
     (floats [0, 0, 0]) = Inr [floats [- (1 / 2), 0, 0], floats [0, - (1 / 2), 0], floats [0, 0, 0]] \<and>
   find_steady_state (example_env OneElementArrays) (fixed_residual_model 0) None None False =
     (Inr (SteadyState (floats [0, 0]) (floats [0])),
      [JacobianEstimated, Warning 3 2, RootInvoked]) \<and>
   fobj (fixed_residual_model 0) (floats [0, 0]) (floats [0]) (floats [1 / 2, 0]) None
     (floats [0, 0, 0]) = Inr (floats [0, 0, 0])"
  by code_simp

section \<open>A positional \<open>force_values\<close> of the wrong length\<close>

lemma where_finite_bound: "i \<in> set (where_finite fv) \<Longrightarrow> i < length fv"
  by (simp add: where_finite_def)

lemma finite_positions_tail:
  "filter (\<lambda>i. isfinite ((fv @ replicate n NotFinite) ! i)) [length fv..<length fv + n] = []"
  unfolding filter_empty_conv by (auto simp: nth_append)

lemma finite_positions_head:
  "filter (\<lambda>i. isfinite ((fv @ replicate n NotFinite) ! i)) [0..<length fv] =
   filter (\<lambda>i. isfinite (fv ! i)) [0..<length fv]"
  by (rule filter_cong) (auto simp: nth_append)

lemma where_finite_padded: "where_finite (fv @ replicate n NotFinite) = where_finite fv"
proof -
  have "where_finite (fv @ replicate n NotFinite) =
        filter (\<lambda>i. isfinite ((fv @ replicate n NotFinite) ! i)) [0..<length fv + n]"
    by (simp add: where_finite_def)
  also have "[0..<length fv + n] = [0..<length fv] @ [length fv..<length fv + n]"
    by (rule upt_add_eq_append) simp
  also have "filter (\<lambda>i. isfinite ((fv @ replicate n NotFinite) ! i))
               ([0..<length fv] @ [length fv..<length fv + n]) =
             filter (\<lambda>i. isfinite (fv ! i)) [0..<length fv]"
    unfolding filter_append finite_positions_tail finite_positions_head by simp
  finally show ?thesis by (simp add: where_finite_def)
qed

lemma array_index_member: "array_index rule inds = Some i \<Longrightarrow> i \<in> set inds"
  by (induction rule inds rule: array_index.induct) auto

lemma list_getitem_padded:
  "list_getitem rule (fv @ replicate n NotFinite) (where_finite fv) =
   list_getitem rule fv (where_finite fv)"
proof (cases "array_index rule (where_finite fv)")
  case None
  then show ?thesis by (simp add: list_getitem_def)
next
  case (Some i)
  then have "i < length fv"
    using array_index_member where_finite_bound by blast
  then show ?thesis using Some by (simp add: list_getitem_def nth_append)
qed

lemma constraints_padded:
  "constraints rule model (Some (Positional (fv @ replicate n NotFinite))) =
   constraints rule model (Some (Positional fv))"
  by (simp add: constraints_def where_finite_padded list_getitem_padded)

text \<open>
  C2, as the code has it. The length of a positional \<open>force_values\<close> is never compared
  with the number of state symbols: only the positions and values of its finite entries
  are read, so adding any number of non-finite entries at its end changes neither what
  the call returns or raises nor its effects.
\<close>

theorem positional_length_is_not_checked:
  "find_steady_state env model e (Some (Positional (fv @ replicate n NotFinite))) return_jacobian =
   find_steady_state env model e (Some (Positional fv)) return_jacobian"
  by (simp add: find_steady_state_def constraints_padded)

text \<open>
  C2 as stated fails. The model has two state symbols, with a unit root, and is
  calibrated at \<open>[0.3, 2], [0]\<close>. Under the index rule of the source's own demonstration,
  the list \<open>[0.3]\<close> of length one raises nothing: the Jacobian is estimated, the solver
  runs (the calibrated point is a root of the constrained system, and the solver stays
  there) and a result is returned. The list \<open>[nan, nan, 0.3]\<close> of length three does raise,
  an \<open>IndexError\<close> from \<open>S[inds]\<close> in the first evaluation of \<open>fobj\<close>, that is inside the
  Jacobian estimate and not before it.
\<close>

theorem shape_mismatch_counterexample:
  "length [Finite (3 / 10)] \<noteq> length (symbols_states (example_model 1 0 [3 / 10, 2])) \<and>
   find_steady_state (example_env OneElementArrays) (example_model 1 0 [3 / 10, 2]) None
     (Some (Positional [Finite (3 / 10)])) False =
     (Inr (SteadyState (floats [3 / 10, 2]) (floats [0])),
      [JacobianEstimated, Warning 3 2, RootInvoked]) \<and>
   fobj (example_model 1 0 [3 / 10, 2]) (floats [3 / 10, 2]) (floats [0]) (floats [1, 0])
     (Some ([0], [Finite (3 / 10)])) (floats [3 / 10, 2, 0]) = Inr (floats [0, 0, 0, 0]) \<and>
   length [NotFinite, NotFinite, Finite (3 / 10)] \<noteq>
     length (symbols_states (example_model 1 0 [3 / 10, 2])) \<and>
   find_steady_state (example_env OneElementArrays) (example_model 1 0 [3 / 10, 2]) None
     (Some (Positional [NotFinite, NotFinite, Finite (3 / 10)])) False =
     (Inl IndexError, [JacobianEstimated])"
  by code_simp

text \<open>
  Under the later index rule line 29 raises \<open>TypeError\<close> for every list, of the right
  length or not: there too nothing compares the length with the number of state symbols.
\<close>

lemma later_index_rule_example:
  "find_steady_state (example_env ScalarArraysOnly) (example_model 1 0 [1, 2]) None
     (Some (Positional [Finite (3 / 10)])) False = (Inl TypeError, []) \<and>
   find_steady_state (example_env ScalarArraysOnly) (example_model 1 0 [1, 2]) None
     (Some (Positional [Finite (3 / 10), NotFinite])) False = (Inl TypeError, [])"
  by code_simp

section \<open>An unknown name in a \<open>force_values\<close> dict\<close>

lemma index_of_error: "index_of xs k = Inl err \<Longrightarrow> err = ValueError"
  by (induction xs) (auto split: if_splits sum.splits simp: map_sum_def)

lemma index_of_missing: "k \<notin> set xs \<Longrightarrow> index_of xs k = Inl ValueError"
  by (induction xs) auto

lemma indices_of_missing:
  "k \<in> set ks \<Longrightarrow> k \<notin> set xs \<Longrightarrow> indices_of xs ks = Inl ValueError"
proof (induction ks)
  case Nil
  then show ?case by simp
next
  case (Cons a ks)
  show ?case
  proof (cases "index_of xs a")
    case (Inl err)
    then show ?thesis using index_of_error [OF Inl] by simp
  next
    case (Inr i)
    then have "a \<in> set xs" using index_of_missing [of a xs] by auto
    then have "k \<in> set ks" using Cons.prems by auto
    then have "indices_of xs ks = Inl ValueError" using Cons by simp
    then show ?thesis using Inr by simp
  qed
qed

text \<open>
  C3. When the dict \<open>force_values\<close> has a key that is not one of the model's state
  symbols, the call raises the \<open>ValueError\<close> of \<open>list.index\<close> on line 31 with no effect
  before it: the Jacobian estimator has not been called and the root solver has not
  been invoked.
\<close>

theorem unknown_constraint_name_raises_before_solving:
  assumes "k \<in> set (map fst d)" and "k \<notin> set (symbols_states model)"
  shows "find_steady_state env model e (Some (Named d)) return_jacobian = (Inl ValueError, [])"
  using indices_of_missing [OF assms]
  by (simp add: find_steady_state_def constraints_def)

theorem unknown_constraint_name_raises_before_solving_witness:
  "''K'' \<in> set (map fst [(''W_2'', Finite (3 / 10)), (''K'', Finite 1)]) \<and>
   ''K'' \<notin> set (symbols_states (example_model 1 0 [1, 2])) \<and>
   find_steady_state (example_env OneElementArrays) (example_model 1 0 [1, 2]) None
     (Some (Named [(''W_2'', Finite (3 / 10)), (''K'', Finite 1)])) False = (Inl ValueError, [])"
  using unknown_constraint_name_raises_before_solving
    [of "''K''" "[(''W_2'', Finite (3 / 10)), (''K'', Finite 1)]" "example_model 1 0 [1, 2]"
       "example_env OneElementArrays" None False]
  by (simp add: example_model_def)

section \<open>The residual function\<close>

lemma np_sub_same_length: "length a = length b \<Longrightarrow> np_sub a b = Inr (map2 (-) a b)"
  by (simp add: np_sub_def)

lemma np_take_in_range:
  "list_all (\<lambda>i. i < length S) inds \<Longrightarrow> np_take S inds = Inr (map (\<lambda>i. S ! i) inds)"
  by (simp add: np_take_def)

lemma map2_nth_sub:
  "length vals = length inds \<Longrightarrow>
   map2 (-) (map (\<lambda>i. S ! i) inds) vals = map2 (\<lambda>i v. S ! i - v) inds (vals :: float list)"
  by (induction inds vals rule: list_induct2') auto

text \<open>
  C4. Let \<open>z\<close> have length \<open>ns + nx\<close>, where \<open>ns\<close> is the number of calibrated states,
  let the transition return \<open>S\<close> of length \<open>ns\<close> at \<open>s = z[:ns]\<close>, \<open>x = z[ns:]\<close>, and let the
  arbitrage function, called with \<open>s, x\<close> for both periods, return \<open>r\<close> of length \<open>nx\<close>.
  Without constraints \<open>fobj(z)\<close> is \<open>S - s\<close> followed by \<open>r\<close>, of length \<open>ns + nx\<close>. With
  \<open>k\<close> constrained indices \<open>inds\<close> (each a state index) and their \<open>k\<close> target values
  \<open>vals\<close>, it is \<open>S - s\<close>, then \<open>r\<close>, then one entry \<open>S[i] - v\<close> for each constrained index
  \<open>i\<close> with its target \<open>v\<close>, in order, of length \<open>ns + nx + k\<close>.
\<close>

theorem fobj_residual_layout:
  assumes "length z = length s0 + nx"
    and "transition model (take (length s0) z) (drop (length s0) z) e p = Inr S"
    and "arbitrage model (take (length s0) z) (drop (length s0) z)
           (take (length s0) z) (drop (length s0) z) p = Inr r"
    and "length S = length s0"
    and "length r = nx"
    and "length vals = length inds"
    and "list_all (\<lambda>i. i < length s0) inds"
  shows "fobj model s0 e p None z = Inr (map2 (-) S (take (length s0) z) @ r) \<and>
         length (map2 (-) S (take (length s0) z) @ r) = length s0 + nx \<and>
         fobj model s0 e p (Some (inds, vals)) z =
           Inr (map2 (-) S (take (length s0) z) @ r @ map2 (\<lambda>i v. S ! i - v) inds vals) \<and>
         length (map2 (-) S (take (length s0) z) @ r @ map2 (\<lambda>i v. S ! i - v) inds vals) =
           length s0 + nx + length inds"
proof -
  have len: "length S = length (take (length s0) z)"
    using assms(1,4) by simp
  have sub: "np_sub S (take (length s0) z) = Inr (map2 (-) S (take (length s0) z))"
    by (rule np_sub_same_length [OF len])
  have tk: "np_take S inds = Inr (map (\<lambda>i. S ! i) inds)"
    using assms(4,7) by (simp add: np_take_in_range)
  have add: "np_sub (map (\<lambda>i. S ! i) inds) vals = Inr (map2 (\<lambda>i v. S ! i - v) inds vals)"
    using assms(6) by (simp add: np_sub_same_length map2_nth_sub)
  show ?thesis
    using assms(1,4,5,6) by (simp add: fobj_def assms(2,3) sub tk add)
qed

theorem fobj_residual_layout_witness:
  "length (floats [1, 2, 5]) = length (floats [1, 2]) + 1 \<and>
   transition (example_model (1 / 2) 1 [1, 2]) (take (length (floats [1, 2])) (floats [1, 2, 5]))
     (drop (length (floats [1, 2])) (floats [1, 2, 5])) (floats [0]) (floats [1 / 2, 1]) =
     Inr (floats [3 / 2, 2]) \<and>
   fobj (example_model (1 / 2) 1 [1, 2]) (floats [1, 2]) (floats [0]) (floats [1 / 2, 1]) None
     (floats [1, 2, 5]) = Inr (floats [1 / 2, 0, 5]) \<and>
   fobj (example_model (1 / 2) 1 [1, 2]) (floats [1, 2]) (floats [0]) (floats [1 / 2, 1])
     (Some ([1, 0], floats [3, 1 / 4])) (floats [1, 2, 5]) =
     Inr (floats [1 / 2, 0, 5, - 1, 5 / 4])"
  using fobj_residual_layout
    [of "floats [1, 2, 5]" "floats [1, 2]" 1 "example_model (1 / 2) 1 [1, 2]" "floats [0]"
        "floats [1 / 2, 1]" "floats [3 / 2, 2]" "floats [5]" "floats [3, 1 / 4]" "[1, 0]"]
  by (simp add: example_model_def floats_def)

text \<open>
  Where the constraints come from a dict they meet the conditions above: there are as
  many values as indices, and every index is a position in the list of state symbols.
  From a list they are one index and one value.
\<close>

lemma index_of_bound: "index_of xs k = Inr i \<Longrightarrow> i < length xs"
  by (induction xs arbitrary: i) (auto split: if_splits sum.splits simp: map_sum_def)

lemma indices_of_bound:
  "indices_of xs ks = Inr js \<Longrightarrow> length js = length ks \<and> list_all (\<lambda>i. i < length xs) js"
  by (induction ks arbitrary: js) (auto split: sum.splits dest: index_of_bound)

lemma array_index_single: "array_index rule inds = Some i \<Longrightarrow> inds = [i]"
  by (induction rule inds rule: array_index.induct) auto

lemma list_getitem_single: "list_getitem rule fv inds = Inr v \<Longrightarrow> length inds = 1"
  by (auto simp: list_getitem_def split: option.splits if_splits dest: array_index_single)

lemma constraints_shape:
  assumes "constraints rule model force_values = Inr (Some (inds, vals))"
  shows "length vals = length inds"
proof (cases force_values)
  case None
  then show ?thesis using assms by (simp add: constraints_def)
next
  case (Some fv)
  show ?thesis
  proof (cases fv)
    case (Positional xs)
    then show ?thesis
      using assms Some
      by (auto simp: constraints_def Let_def split: sum.splits dest: list_getitem_single)
  next
    case (Named d)
    then show ?thesis
      using assms Some by (auto simp: constraints_def split: sum.splits dest: indices_of_bound)
  qed
qed

section \<open>The paths through \<open>find_steady_state\<close>\<close>

lemma solve_path:
  assumes "constraints (numpy_index env) model force_values = Inr forced"
    and "MyJacobian env
           (fobj model (calibration_states model) (shock_vector model e)
              (calibration_parameters model) forced)
           (calibration_states model @ calibration_controls model) = Inr jac"
    and "matrix_rank env jac = Inr rank"
  shows "find_steady_state env model e force_values False =
     (map_sum id
        (\<lambda>sol. SteadyState (take (length (calibration_states model)) (sol_x sol))
                            (drop (length (calibration_states model)) (sol_x sol)))
        (root env
           (fobj model (calibration_states model) (shock_vector model e)
              (calibration_parameters model) forced)
           (calibration_states model @ calibration_controls model)),
      JacobianEstimated #
      (if rank < length (calibration_states model @ calibration_controls model)
       then [Warning (length (calibration_states model @ calibration_controls model)) rank]
       else []) @ [RootInvoked])"
  using assms by (simp add: find_steady_state_def Let_def split: sum.splits)

lemma rank_error_path:
  assumes "constraints (numpy_index env) model force_values = Inr forced"
    and "MyJacobian env
           (fobj model (calibration_states model) (shock_vector model e)
              (calibration_parameters model) forced)
           (calibration_states model @ calibration_controls model) = Inr jac"
    and "matrix_rank env jac = Inl err"
  shows "find_steady_state env model e force_values False = (Inl err, [JacobianEstimated])"
  using assms by (simp add: find_steady_state_def)

lemma jacobian_path:
  assumes "constraints (numpy_index env) model force_values = Inr forced"
  shows "find_steady_state env model e force_values True =
     (map_sum id Jacobian
        (MyJacobian env
           (fobj model (calibration_states model) (shock_vector model e)
              (calibration_parameters model) forced)
           (calibration_states model @ calibration_controls model)),
      [JacobianEstimated])"
  using assms by (simp add: find_steady_state_def Let_def split: sum.splits)

lemma setup_error_path:
  assumes "constraints (numpy_index env) model force_values = Inl err"
  shows "find_steady_state env model e force_values return_jacobian = (Inl err, [])"
  using assms by (simp add: find_steady_state_def)

lemma jacobian_error_path:
  assumes "constraints (numpy_index env) model force_values = Inr forced"
    and "MyJacobian env
           (fobj model (calibration_states model) (shock_vector model e)
              (calibration_parameters model) forced)
           (calibration_states model @ calibration_controls model) = Inl err"
  shows "find_steady_state env model e force_values return_jacobian = (Inl err, [JacobianEstimated])"
  using assms by (simp add: find_steady_state_def)

section \<open>Returning the Jacobian\<close>

text \<open>
  C6. With \<open>return_jacobian=True\<close> every call either raises while the constraints are
  read, with no effect, or calls the Jacobian estimator once, on the residual function
  \<open>fobj\<close> at the concatenation of the calibrated states and controls, and returns what
  the estimator returns (or raises what it raises) and nothing else. The root solver is
  not invoked, and the call does not depend on it.
\<close>

theorem return_jacobian_short_circuits:
  "find_steady_state env model e force_values True =
     (case constraints (numpy_index env) model force_values of
        Inl err \<Rightarrow> (Inl err, [])
      | Inr forced \<Rightarrow>
          (map_sum id Jacobian
             (MyJacobian env
                (fobj model (calibration_states model) (shock_vector model e)
                   (calibration_parameters model) forced)
                (calibration_states model @ calibration_controls model)),
           [JacobianEstimated])) \<and>
   RootInvoked \<notin> set (snd (find_steady_state env model e force_values True)) \<and>
   find_steady_state (env\<lparr>root := solver\<rparr>) model e force_values True =
     find_steady_state env model e force_values True"
  by (auto simp: find_steady_state_def Let_def split: sum.splits)

section \<open>The rank diagnostic\<close>

text \<open>
  C7, as the code has it. On the solving path (\<open>return_jacobian=False\<close>, the constraints
  read and the Jacobian estimated at the initial guess), with \<open>n\<close> the length of the
  unknown vector. When the rank routine returns a rank, the effects of the call are the
  Jacobian estimate, then the warning, present exactly when the rank is less than \<open>n\<close>
  and carrying \<open>n\<close> and the rank, then the call of the root solver; and what the call
  returns or raises is what the solver returns or raises, whether or not the warning
  was given. When the rank routine raises, the call raises the same exception after
  the Jacobian estimate, and the root solver is not invoked.
\<close>

theorem rank_warning_when_rank_is_computed:
  assumes "constraints (numpy_index env) model force_values = Inr forced"
    and "MyJacobian env
           (fobj model (calibration_states model) (shock_vector model e)
              (calibration_parameters model) forced)
           (calibration_states model @ calibration_controls model) = Inr jac"
    and "n = length (calibration_states model) + length (calibration_controls model)"
  shows "(matrix_rank env jac = Inr rank \<longrightarrow>
            snd (find_steady_state env model e force_values False) =
              JacobianEstimated # (if rank < n then [Warning n rank] else []) @ [RootInvoked] \<and>
            (Warning a b \<in> set (snd (find_steady_state env model e force_values False))) =
              (a = n \<and> b = rank \<and> rank < n) \<and>
            fst (find_steady_state env model e force_values False) =
              map_sum id
                (\<lambda>sol. SteadyState (take (length (calibration_states model)) (sol_x sol))
                                    (drop (length (calibration_states model)) (sol_x sol)))
                (root env
                   (fobj model (calibration_states model) (shock_vector model e)
                      (calibration_parameters model) forced)
                   (calibration_states model @ calibration_controls model))) \<and>
         (matrix_rank env jac = Inl err \<longrightarrow>
            find_steady_state env model e force_values False = (Inl err, [JacobianEstimated]))"
proof (intro conjI impI)
  assume r: "matrix_rank env jac = Inr rank"
  note p = solve_path [OF assms(1,2) r]
  show "snd (find_steady_state env model e force_values False) =
          JacobianEstimated # (if rank < n then [Warning n rank] else []) @ [RootInvoked]"
    using p assms(3) by simp
  show "(Warning a b \<in> set (snd (find_steady_state env model e force_values False))) =
          (a = n \<and> b = rank \<and> rank < n)"
    using p assms(3) by auto
  show "fst (find_steady_state env model e force_values False) =
          map_sum id
            (\<lambda>sol. SteadyState (take (length (calibration_states model)) (sol_x sol))
                                (drop (length (calibration_states model)) (sol_x sol)))
            (root env
               (fobj model (calibration_states model) (shock_vector model e)
                  (calibration_parameters model) forced)
               (calibration_states model @ calibration_controls model))"
    using p by simp
next
  assume "matrix_rank env jac = Inl err"
  then show "find_steady_state env model e force_values False = (Inl err, [JacobianEstimated])"
    by (rule rank_error_path [OF assms(1,2)])
qed

theorem rank_warning_when_rank_is_computed_witness:
  "matrix_rank (example_env OneElementArrays) [floats [0, 0, 0], floats [0, 0, 0], floats [0, 0, 1]] = Inr 1 \<and>
   snd (find_steady_state (example_env OneElementArrays) (example_model 1 0 [1, 2]) None None False) =
     [JacobianEstimated, Warning 3 1, RootInvoked] \<and>
   matrix_rank (example_env OneElementArrays)
     [floats [- (1 / 2), 0, 0], floats [0, - (1 / 2), 0], floats [0, 0, 1]] = Inr 3 \<and>
   snd (find_steady_state (example_env OneElementArrays) (example_model (1 / 2) 0 [1, 2]) None None False) =
     [JacobianEstimated, RootInvoked] \<and>
   matrix_rank (example_env OneElementArrays)
     [[NotFinite, NotFinite, NotFinite], [NotFinite, NotFinite, NotFinite],
      [Finite 0, Finite 0, Finite 1]] = Inl LinAlgError \<and>
   find_steady_state (example_env OneElementArrays) nan_parameter_model None None False =
     (Inl LinAlgError, [JacobianEstimated])"
proof -
  have c: "constraints (numpy_index (example_env OneElementArrays)) m None = Inr None" for m
    by (simp add: constraints_def)
  have j1: "MyJacobian (example_env OneElementArrays)
     (fobj (example_model 1 0 [1, 2]) (calibration_states (example_model 1 0 [1, 2]))
        (shock_vector (example_model 1 0 [1, 2]) None)
        (calibration_parameters (example_model 1 0 [1, 2])) None)
     (calibration_states (example_model 1 0 [1, 2]) @ calibration_controls (example_model 1 0 [1, 2]))
     = Inr [floats [0, 0, 0], floats [0, 0, 0], floats [0, 0, 1]]"
    by code_simp
  have j2: "MyJacobian (example_env OneElementArrays)
     (fobj (example_model (1 / 2) 0 [1, 2]) (calibration_states (example_model (1 / 2) 0 [1, 2]))
        (shock_vector (example_model (1 / 2) 0 [1, 2]) None)
        (calibration_parameters (example_model (1 / 2) 0 [1, 2])) None)
     (calibration_states (example_model (1 / 2) 0 [1, 2]) @
      calibration_controls (example_model (1 / 2) 0 [1, 2]))
     = Inr [floats [- (1 / 2), 0, 0], floats [0, - (1 / 2), 0], floats [0, 0, 1]]"
    by code_simp
  have j3: "MyJacobian (example_env OneElementArrays)
     (fobj nan_parameter_model (calibration_states nan_parameter_model)
        (shock_vector nan_parameter_model None)
        (calibration_parameters nan_parameter_model) None)
     (calibration_states nan_parameter_model @ calibration_controls nan_parameter_model)
     = Inr [[NotFinite, NotFinite, NotFinite], [NotFinite, NotFinite, NotFinite],
            [Finite 0, Finite 0, Finite 1]]"
    by code_simp
  have n: "(3::nat) = length (calibration_states (example_model a b [1, 2])) +
             length (calibration_controls (example_model a b [1, 2]))" for a b
    by (simp add: example_model_def floats_def)
  have n3: "(3::nat) = length (calibration_states nan_parameter_model) +
             length (calibration_controls nan_parameter_model)"
    by (simp add: nan_parameter_model_def example_model_def floats_def)
  have r1: "matrix_rank (example_env OneElementArrays)
              [floats [0, 0, 0], floats [0, 0, 0], floats [0, 0, 1]] = Inr 1"
    by code_simp
  have r2: "matrix_rank (example_env OneElementArrays)
              [floats [- (1 / 2), 0, 0], floats [0, - (1 / 2), 0], floats [0, 0, 1]] = Inr 3"
    by code_simp
  have r3: "matrix_rank (example_env OneElementArrays)
              [[NotFinite, NotFinite, NotFinite], [NotFinite, NotFinite, NotFinite],
               [Finite 0, Finite 0, Finite 1]] = Inl LinAlgError"
    by code_simp
  show ?thesis
    using rank_warning_when_rank_is_computed [OF c j1 n, of 1 0 0 LinAlgError]
      rank_warning_when_rank_is_computed [OF c j2 n, of 3 0 0 LinAlgError]
      rank_warning_when_rank_is_computed [OF c j3 n3, of 0 0 0 LinAlgError]
    by (simp add: r1 r2 r3)
qed

text \<open>
  C7 as stated fails: the diagnostic can raise and keep the solver from running. With
  the first parameter at nan the transition returns nan, the residual and the first two
  rows of the Jacobian are nan, and \<open>matrix_rank\<close> on line 51 raises \<open>LinAlgError\<close>: the
  call ends there, after the Jacobian estimate, with no warning and no solver call. The
  same call with \<open>return_jacobian=True\<close> returns that Jacobian.
\<close>

theorem rank_diagnostic_raises_counterexample:
  "find_steady_state (example_env OneElementArrays) nan_parameter_model None None False =
     (Inl LinAlgError, [JacobianEstimated]) \<and>
   find_steady_state (example_env OneElementArrays) nan_parameter_model None None True =
     (Inr (Jacobian [[NotFinite, NotFinite, NotFinite], [NotFinite, NotFinite, NotFinite],
                     [Finite 0, Finite 0, Finite 1]]),
      [JacobianEstimated]) \<and>
   fobj nan_parameter_model (floats [1, 2]) (floats [0]) [NotFinite, Finite 0] None
     (floats [1, 2, 0]) = Inr [NotFinite, NotFinite, Finite 0]"
  by code_simp

text \<open>
  C10. With \<open>return_jacobian=True\<close> no warning is among the effects of a call, whatever
  the rank of the Jacobian, and the call does not depend on the rank routine; a call
  that gives the warning is a call with \<open>return_jacobian=False\<close>.
\<close>

theorem no_rank_warning_when_returning_jacobian:
  "Warning n r \<notin> set (snd (find_steady_state env model e force_values True)) \<and>
   find_steady_state (env\<lparr>matrix_rank := rk\<rparr>) model e force_values True =
     find_steady_state env model e force_values True \<and>
   (Warning n r \<in> set (snd (find_steady_state env model e force_values return_jacobian))
      \<longrightarrow> \<not> return_jacobian)"
  by (auto simp: find_steady_state_def Let_def split: sum.splits if_splits)

theorem no_rank_warning_when_returning_jacobian_witness:
  "Warning 3 1 \<in> set (snd (find_steady_state (example_env OneElementArrays)
                             (example_model 1 0 [1, 2]) None None False)) \<and>
   Warning 3 1 \<notin> set (snd (find_steady_state (example_env OneElementArrays)
                             (example_model 1 0 [1, 2]) None None True)) \<and>
   find_steady_state (example_env OneElementArrays) (example_model 1 0 [1, 2]) None None True =
     (Inr (Jacobian [floats [0, 0, 0], floats [0, 0, 0], floats [0, 0, 1]]), [JacobianEstimated]) \<and>
   matrix_rank (example_env OneElementArrays) [floats [0, 0, 0], floats [0, 0, 0], floats [0, 0, 1]] = Inr 1"
proof -
  have solve: "find_steady_state (example_env OneElementArrays) (example_model 1 0 [1, 2])
                 None None False =
               (Inr (SteadyState (floats [1, 2]) (floats [0])),
                [JacobianEstimated, Warning 3 1, RootInvoked])"
    by code_simp
  have jac: "find_steady_state (example_env OneElementArrays) (example_model 1 0 [1, 2])
               None None True =
             (Inr (Jacobian [floats [0, 0, 0], floats [0, 0, 0], floats [0, 0, 1]]), [JacobianEstimated])"
    by code_simp
  have rk: "matrix_rank (example_env OneElementArrays)
              [floats [0, 0, 0], floats [0, 0, 0], floats [0, 0, 1]] = Inr 1"
    by code_simp
  show ?thesis
    using no_rank_warning_when_returning_jacobian
      [of 3 1 "example_env OneElementArrays" "example_model 1 0 [1, 2]" None None
          "rank_or_raise" False]
    by (simp add: solve jac rk)
qed

section \<open>The solution\<close>

text \<open>
  C8. When a solve (\<open>return_jacobian=False\<close>) returns normally, the constraints were
  read, the root solver returned a result, and the value returned is the pair of the
  solver's final vector \<open>z*\<close> cut at \<open>ns\<close>, the number of calibrated states: \<open>z*[:ns]\<close> and
  \<open>z*[ns:]\<close>. When \<open>z*\<close> has the length of the initial guess and the calibrated states and
  controls are as many as the state and control symbols, the two halves have as many
  entries as there are state symbols and control symbols.
\<close>

theorem solution_is_split_at_ns:
  assumes "find_steady_state env model e force_values False = (Inr res, evs)"
  shows "\<exists>forced sol.
           constraints (numpy_index env) model force_values = Inr forced \<and>
           root env
             (fobj model (calibration_states model) (shock_vector model e)
                (calibration_parameters model) forced)
             (calibration_states model @ calibration_controls model) = Inr sol \<and>
           res = SteadyState (take (length (calibration_states model)) (sol_x sol))
                             (drop (length (calibration_states model)) (sol_x sol)) \<and>
           (length (sol_x sol) = length (calibration_states model @ calibration_controls model) \<and>
            length (calibration_states model) = length (symbols_states model) \<and>
            length (calibration_controls model) = length (symbols_controls model) \<longrightarrow>
            length (take (length (calibration_states model)) (sol_x sol)) =
              length (symbols_states model) \<and>
            length (drop (length (calibration_states model)) (sol_x sol)) =
              length (symbols_controls model))"
  using assms by (auto simp: find_steady_state_def Let_def split: sum.splits if_splits)

theorem solution_is_split_at_ns_witness:
  "find_steady_state (example_env OneElementArrays) (example_model 1 0 [1, 2]) None None False =
     (Inr (SteadyState (floats [1, 2]) (floats [0])),
      [JacobianEstimated, Warning 3 1, RootInvoked]) \<and>
   (\<exists>forced sol.
      constraints (numpy_index (example_env OneElementArrays)) (example_model 1 0 [1, 2]) None =
        Inr forced \<and>
      root (example_env OneElementArrays)
        (fobj (example_model 1 0 [1, 2])
           (calibration_states (example_model 1 0 [1, 2]))
           (shock_vector (example_model 1 0 [1, 2]) None)
           (calibration_parameters (example_model 1 0 [1, 2])) forced)
        (calibration_states (example_model 1 0 [1, 2]) @
         calibration_controls (example_model 1 0 [1, 2])) = Inr sol \<and>
      SteadyState (floats [1, 2]) (floats [0]) =
        SteadyState
          (take (length (calibration_states (example_model 1 0 [1, 2]))) (sol_x sol))
          (drop (length (calibration_states (example_model 1 0 [1, 2]))) (sol_x sol)) \<and>
      length (sol_x sol) = 3 \<and>
      length (take (length (calibration_states (example_model 1 0 [1, 2]))) (sol_x sol)) =
        length (symbols_states (example_model 1 0 [1, 2])) \<and>
      length (drop (length (calibration_states (example_model 1 0 [1, 2]))) (sol_x sol)) =
        length (symbols_controls (example_model 1 0 [1, 2])))"
proof -
  let ?M = "example_model 1 0 [1, 2]"
  have run: "find_steady_state (example_env OneElementArrays) ?M None None False =
     (Inr (SteadyState (floats [1, 2]) (floats [0])),
      [JacobianEstimated, Warning 3 1, RootInvoked])"
    by code_simp
  from solution_is_split_at_ns [OF run]
  obtain forced sol where
    f: "constraints (numpy_index (example_env OneElementArrays)) ?M None = Inr forced"
    and s: "root (example_env OneElementArrays)
        (fobj ?M (calibration_states ?M) (shock_vector ?M None) (calibration_parameters ?M) forced)
        (calibration_states ?M @ calibration_controls ?M) = Inr sol"
    and r: "SteadyState (floats [1, 2]) (floats [0]) =
        SteadyState (take (length (calibration_states ?M)) (sol_x sol))
                    (drop (length (calibration_states ?M)) (sol_x sol))"
    by blast
  from s have len: "length (sol_x sol) = 3"
    by (auto simp: example_env_def stalled_root_def example_model_def floats_def split: sum.splits)
  have l1: "length (take (length (calibration_states ?M)) (sol_x sol)) = length (symbols_states ?M)"
    using len by (simp add: example_model_def floats_def)
  have l2: "length (drop (length (calibration_states ?M)) (sol_x sol)) = length (symbols_controls ?M)"
    using len by (simp add: example_model_def floats_def)
  show ?thesis
    using run f s r len l1 l2 by blast
qed

section \<open>Repeated calls\<close>

lemma warnings_warn_cases:
  "warnings_warn n rank registry = ([], registry) \<and> (n, rank) \<in> set registry \<or>
   warnings_warn n rank registry = ([(n, rank)], registry @ [(n, rank)]) \<and>
   (n, rank) \<notin> set registry"
  by (simp add: warnings_warn_def)








end
